theory Spec2Isabelle
  imports Main
begin

section \<open>Shared vocabulary: JavaScript values\<close>

text \<open>
  The two components under verification are the request executor of the API client
  (\<^verbatim>\<open>fetchWithRetry\<close>, \<^verbatim>\<open>isRetryableError\<close>, \<^verbatim>\<open>RETRY_CONFIG\<close> in \<^verbatim>\<open>src/unnamed/part_000\<close>)
  and the stream connection (\<^verbatim>\<open>class WebSocketClient\<close> in
  \<^verbatim>\<open>src/frontend/js/websocket-client.js\<close>).

  In \<^verbatim>\<open>part_000\<close> a few statements share their line with the comment before them
  (the line break after a non-ASCII comment is lost in the stored file, for instance
  before \<^verbatim>\<open>if (!response.ok) {\<close> and before \<^verbatim>\<open>const cacheKey\<close>); the braces only balance
  when these statements are code, and they are modelled as code.

  JSON values are a datatype; \<^verbatim>\<open>undefined\<close> is \<open>None\<close> of an option. Numbers are
  integers: the configurations of both components hold integer milliseconds and integer
  multipliers, on which double arithmetic is exact below \<open>2^53\<close>.
\<close>

datatype jval =
    JNull
  | JBool bool
  | JNum int
  | JStr string
  | JObj "(string \<times> jval) list"

text \<open>JavaScript truthiness, as used by \<^verbatim>\<open>if (x)\<close>, \<^verbatim>\<open>!x\<close> and \<^verbatim>\<open>a || b\<close>.\<close>

fun truthy :: "jval option \<Rightarrow> bool" where
  "truthy None = False"
| "truthy (Some JNull) = False"
| "truthy (Some (JBool b)) = b"
| "truthy (Some (JNum n)) = (n \<noteq> 0)"
| "truthy (Some (JStr s)) = (s \<noteq> [])"
| "truthy (Some (JObj fs)) = True"

text \<open>\<^verbatim>\<open>a || b\<close>: the first operand when it is truthy, the second otherwise.\<close>

definition js_or :: "jval option \<Rightarrow> jval option \<Rightarrow> jval option" where
  "js_or a b = (if truthy a then a else b)"

text \<open>
  Property access \<^verbatim>\<open>v.key\<close>. On \<^verbatim>\<open>null\<close> it throws a TypeError (\<open>None\<close>); on an
  object it gives the field or \<^verbatim>\<open>undefined\<close> (\<^verbatim>\<open>JSON.parse\<close> keeps the last of
  duplicate keys); on a primitive it gives \<^verbatim>\<open>undefined\<close> for the keys read here.
\<close>

fun get_prop :: "jval \<Rightarrow> string \<Rightarrow> jval option option" where
  "get_prop JNull k = None"
| "get_prop (JObj fs) k = Some (map_of (rev fs) k)"
| "get_prop v k = Some None"

text \<open>\<^verbatim>\<open>s.includes(sub)\<close>: \<open>sub\<close> occurs in \<open>s\<close> as a contiguous block.\<close>

fun starts_with :: "string \<Rightarrow> string \<Rightarrow> bool" where
  "starts_with s [] = True"
| "starts_with [] (c # cs) = False"
| "starts_with (d # ds) (c # cs) = (d = c \<and> starts_with ds cs)"

fun str_includes :: "string \<Rightarrow> string \<Rightarrow> bool" where
  "str_includes [] sub = (sub = [])"
| "str_includes (c # cs) sub = (starts_with (c # cs) sub \<or> str_includes cs sub)"

text \<open>Decimal rendering of a number inside a template literal.\<close>

definition digit_char :: "nat \<Rightarrow> char" where
  "digit_char d =
     (if d = 0 then CHR ''0'' else if d = 1 then CHR ''1'' else if d = 2 then CHR ''2''
      else if d = 3 then CHR ''3'' else if d = 4 then CHR ''4'' else if d = 5 then CHR ''5''
      else if d = 6 then CHR ''6'' else if d = 7 then CHR ''7'' else if d = 8 then CHR ''8''
      else CHR ''9'')"

fun show_nat :: "nat \<Rightarrow> string" where
  "show_nat n = (if n < 10 then [digit_char n] else show_nat (n div 10) @ [digit_char (n mod 10)])"

definition show_int :: "int \<Rightarrow> string" where
  "show_int i = (if i < 0 then CHR ''-'' # show_nat (nat (- i)) else show_nat (nat i))"

text \<open>\<^verbatim>\<open>String(v)\<close>, the conversion \<^verbatim>\<open>super(message)\<close> applies to an error message.\<close>

fun to_string :: "jval option \<Rightarrow> string" where
  "to_string None = ''undefined''"
| "to_string (Some JNull) = ''null''"
| "to_string (Some (JBool b)) = (if b then ''true'' else ''false'')"
| "to_string (Some (JNum n)) = show_int n"
| "to_string (Some (JStr s)) = s"
| "to_string (Some (JObj fs)) = ''[object Object]''"

section \<open>The request executor\<close>

subsection \<open>Errors, responses and the retry configuration\<close>

text \<open>
  \<^verbatim>\<open>class APIError extends Error\<close> carries \<open>message\<close>, \<open>status\<close> and \<open>data\<close>
  (\<^verbatim>\<open>null\<close> by default); any other thrown error is kept by its \<open>name\<close> and \<open>message\<close>.
\<close>

datatype js_error =
    APIError string nat "jval option"
  | Error string string

fun is_APIError :: "js_error \<Rightarrow> bool" where
  "is_APIError (APIError m st d) = True"
| "is_APIError (Error n m) = False"

fun error_name :: "js_error \<Rightarrow> string" where
  "error_name (APIError m st d) = ''APIError''"
| "error_name (Error n m) = n"

fun error_message :: "js_error \<Rightarrow> string" where
  "error_message (APIError m st d) = m"
| "error_message (Error n m) = m"

fun error_status :: "js_error \<Rightarrow> nat option" where
  "error_status (APIError m st d) = Some st"
| "error_status (Error n m) = None"

text \<open>
  What the executor reads of a \<^verbatim>\<open>Response\<close>: the status, the content-type header
  (\<^verbatim>\<open>headers.get\<close> gives \<^verbatim>\<open>null\<close> when absent), and the two ways of reading the body,
  each of which may reject (\<open>None\<close>).
\<close>

record response =
  status :: nat
  contentType :: "string option"
  json :: "jval option"
  text_body :: "string option"

text \<open>\<^verbatim>\<open>response.ok\<close>: the status is in the range 200 to 299.\<close>

definition ok :: "response \<Rightarrow> bool" where
  "ok r = (200 \<le> status r \<and> status r \<le> 299)"

record retry_config =
  maxAttempts :: nat
  retryDelay :: int
  backoffMultiplier :: int
  retryableStatuses :: "nat list"
  nonRetryableStatuses :: "nat list"
  networkErrors :: "string list"

definition RETRY_CONFIG :: retry_config where
  "RETRY_CONFIG = \<lparr>
     maxAttempts = 3,
     retryDelay = 1000,
     backoffMultiplier = 2,
     retryableStatuses = [408, 429, 500, 502, 503, 504],
     nonRetryableStatuses = [400, 401, 403, 404],
     networkErrors = [''ECONNRESET'', ''ETIMEDOUT'', ''EAI_AGAIN'']
   \<rparr>"

text \<open>
  The source reads the module constant \<^verbatim>\<open>RETRY_CONFIG\<close>; the model takes the
  configuration as a parameter \<open>cfg\<close>, so that statements about every policy can be
  written, and \<open>RETRY_CONFIG\<close> is the instance the code ships.
\<close>

text \<open>\<^verbatim>\<open>error instanceof APIError && statuses.includes(error.status)\<close>.\<close>

fun api_status_in :: "js_error \<Rightarrow> nat list \<Rightarrow> bool" where
  "api_status_in (APIError m st d) sts = (st \<in> set sts)"
| "api_status_in (Error n m) sts = False"

definition isRetryableError :: "retry_config \<Rightarrow> js_error \<Rightarrow> bool" where
  "isRetryableError cfg e =
     (if api_status_in e (nonRetryableStatuses cfg)
        then False
      else if error_name e = ''TypeError'' \<and> str_includes (error_message e) ''fetch''
        then True
      else if list_ex (\<lambda>code. str_includes (error_message e) code) (networkErrors cfg)
        then True
      else if api_status_in e (retryableStatuses cfg)
        then True
      else False)"

subsection \<open>One attempt\<close>

text \<open>
  The error message and payload built from a non-ok response. The inner \<^verbatim>\<open>try\<close>
  swallows every failure of reading the body; \<^verbatim>\<open>errorData = json\<close> is assigned before
  \<^verbatim>\<open>json.message\<close> is read, so a \<^verbatim>\<open>null\<close> body leaves the default message.
\<close>

definition is_json_type :: "string option \<Rightarrow> bool" where
  "is_json_type ct = (case ct of None \<Rightarrow> False
                      | Some c \<Rightarrow> c \<noteq> [] \<and> str_includes c ''application/json'')"

definition errorMessage :: "response \<Rightarrow> string" where
  "errorMessage r =
     (let dflt = ''HTTP '' @ show_nat (status r) in
      if is_json_type (contentType r) then
        (case json r of
           None \<Rightarrow> dflt
         | Some j \<Rightarrow>
             (case get_prop j ''message'' of
                None \<Rightarrow> dflt
              | Some m \<Rightarrow>
                  (case get_prop j ''detail'' of
                     None \<Rightarrow> dflt
                   | Some d \<Rightarrow> to_string (js_or (js_or m d) (Some (JStr dflt))))))
      else
        (case text_body r of
           None \<Rightarrow> dflt
         | Some t \<Rightarrow> (if t \<noteq> [] then t else dflt)))"

definition errorData :: "response \<Rightarrow> jval option" where
  "errorData r =
     (if is_json_type (contentType r) then
        (case json r of None \<Rightarrow> None | Some JNull \<Rightarrow> None | Some j \<Rightarrow> Some j)
      else None)"

text \<open>
  The outcome of one \<^verbatim>\<open>await fetch(url, options)\<close>: a response, or a rejection
  (a network failure; browsers reject with a TypeError).
\<close>

datatype fetch_outcome = Responds response | Rejects js_error

text \<open>The body of the \<^verbatim>\<open>try\<close> block: the response when it is ok, the thrown error otherwise.\<close>

fun attempt_once :: "fetch_outcome \<Rightarrow> js_error + response" where
  "attempt_once (Rejects e) = Inl e"
| "attempt_once (Responds r) =
     (if \<not> ok r then Inl (APIError (errorMessage r) (status r) (errorData r)) else Inr r)"

subsection \<open>The retry loop\<close>

text \<open>
  What an execution does, in order: transport calls and sleeps. \<open>Fetch n\<close> is the
  \<^verbatim>\<open>fetch\<close> call of attempt \<open>n\<close>, \<open>Sleep d\<close> is \<^verbatim>\<open>await delay(d)\<close>.
\<close>

datatype action = Fetch nat | Sleep int

text \<open>
  \<^verbatim>\<open>fetchWithRetry(url, options, attempt = 1)\<close>. The transport is the function \<open>fetch\<close>
  from the attempt number to the outcome of that attempt's call. The result is what the
  promise settles to (\<open>Inl\<close>: rejected with the error) and the actions performed.
  \<open>delayMs\<close> is the constant of that name in the \<^verbatim>\<open>catch\<close> block; its exponent
  \<^verbatim>\<open>attempt - 1\<close> is a natural number for \<open>attempt \<ge> 1\<close>, and every caller starts at
  the default \<open>1\<close>.
\<close>

definition delayMs :: "retry_config \<Rightarrow> nat \<Rightarrow> int" where
  "delayMs cfg attempt = retryDelay cfg * backoffMultiplier cfg ^ (attempt - 1)"

function fetchWithRetry ::
  "retry_config \<Rightarrow> (nat \<Rightarrow> fetch_outcome) \<Rightarrow> nat \<Rightarrow> (js_error + response) \<times> action list" where
  "fetchWithRetry cfg fetch attempt =
     (case attempt_once (fetch attempt) of
        Inr r \<Rightarrow> (Inr r, [Fetch attempt])
      | Inl e \<Rightarrow>
          (if \<not> isRetryableError cfg e \<or> attempt \<ge> maxAttempts cfg
             then (Inl e, [Fetch attempt])
           else
             (let rest = fetchWithRetry cfg fetch (attempt + 1)
              in (fst rest, Fetch attempt # Sleep (delayMs cfg attempt) # snd rest))))"
  by pat_completeness auto
termination
  by (relation "measure (\<lambda>(cfg, fetch, attempt). maxAttempts cfg - attempt)") auto

declare fetchWithRetry.simps [simp del]

text \<open>
  \<^verbatim>\<open>handleResponse\<close>: the parsed body of a response, JSON or text by content type;
  reading the body may reject.
\<close>

datatype body = JsonBody jval | TextBody string

definition handleResponse :: "response \<Rightarrow> body option" where
  "handleResponse r =
     (if is_json_type (contentType r)
        then map_option JsonBody (json r)
        else map_option TextBody (text_body r))"

text \<open>
  Every method of \<^verbatim>\<open>apiClient\<close> runs \<^verbatim>\<open>fetchWithRetry\<close> from attempt 1 and hands the
  response to \<^verbatim>\<open>handleResponse\<close>; a rejection of either is rethrown (\<open>None\<close> stands
  for the rejection of the body read).
\<close>

definition request ::
  "retry_config \<Rightarrow> (nat \<Rightarrow> fetch_outcome) \<Rightarrow> (js_error + body option) \<times> action list" where
  "request cfg fetch =
     (let res = fetchWithRetry cfg fetch 1
      in (case fst res of Inl e \<Rightarrow> Inl e | Inr r \<Rightarrow> Inr (handleResponse r), snd res))"

text \<open>The sleeps of an execution, and a bound on all of them.\<close>

fun sleeps :: "action list \<Rightarrow> int list" where
  "sleeps [] = []"
| "sleeps (Fetch n # as) = sleeps as"
| "sleeps (Sleep d # as) = d # sleeps as"


text \<open>An attempt that fails with an error the configuration retries.\<close>

definition retryable_failure :: "retry_config \<Rightarrow> fetch_outcome \<Rightarrow> bool" where
  "retryable_failure cfg out =
     (case attempt_once out of Inl e \<Rightarrow> isRetryableError cfg e | Inr r \<Rightarrow> False)"

text \<open>The actions of the failed attempts \<open>a, ..., k - 1\<close>, each followed by its sleep.\<close>

definition backoff_actions :: "retry_config \<Rightarrow> nat \<Rightarrow> nat \<Rightarrow> action list" where
  "backoff_actions cfg a k = concat (map (\<lambda>n. [Fetch n, Sleep (delayMs cfg n)]) [a..<k])"

subsection \<open>Concrete transports and policies\<close>

definition plain_response :: "nat \<Rightarrow> response" where
  "plain_response st = \<lparr>status = st, contentType = None, json = None, text_body = Some []\<rparr>"

definition json_response :: "nat \<Rightarrow> jval \<Rightarrow> response" where
  "json_response st j =
     \<lparr>status = st, contentType = Some ''application/json'', json = Some j, text_body = None\<rparr>"

text \<open>A transport that answers every attempt with the same status.\<close>

definition always_status :: "nat \<Rightarrow> nat \<Rightarrow> fetch_outcome" where
  "always_status st n = Responds (plain_response st)"

text \<open>The scenario of the specification: 503, 503, then 200 with a JSON body.\<close>

definition scenario_policy :: retry_config where
  "scenario_policy = \<lparr>
     maxAttempts = 3, retryDelay = 1000, backoffMultiplier = 2,
     retryableStatuses = [503], nonRetryableStatuses = [], networkErrors = []\<rparr>"

definition scenario_body :: jval where
  "scenario_body = JObj [(''data'', JStr ''x'')]"

definition scenario_fetch :: "nat \<Rightarrow> fetch_outcome" where
  "scenario_fetch n =
     (if n < 3 then Responds (plain_response 503) else Responds (json_response 200 scenario_body))"

text \<open>A policy that lists 503 as retryable and as non-retryable, with five attempts.\<close>

definition overlapping_policy :: retry_config where
  "overlapping_policy =
     RETRY_CONFIG\<lparr>maxAttempts := 5, nonRetryableStatuses := [400, 401, 403, 404, 503]\<rparr>"


section \<open>The stream connection\<close>

subsection \<open>Configuration and data\<close>

text \<open>
  \<^verbatim>\<open>RECONNECT_CONFIG\<close>. The fields \<open>wsMaxAttempts\<close> and \<open>wsBackoffMultiplier\<close> are the
  source's \<^verbatim>\<open>maxAttempts\<close> and \<^verbatim>\<open>backoffMultiplier\<close>, renamed apart from the fields of
  the retry configuration. The constructor merges the caller's overrides into the
  defaults; the model takes the merged configuration.
\<close>

record reconnect_config =
  enabled :: bool
  wsMaxAttempts :: nat
  baseDelay :: int
  maxDelay :: int
  wsBackoffMultiplier :: int
  heartbeatInterval :: int

definition RECONNECT_CONFIG :: reconnect_config where
  "RECONNECT_CONFIG = \<lparr>
     enabled = True,
     wsMaxAttempts = 5,
     baseDelay = 1000,
     maxDelay = 30000,
     wsBackoffMultiplier = 2,
     heartbeatInterval = 30000
   \<rparr>"

text \<open>
  What \<^verbatim>\<open>localStorage.getItem('agoraUser')\<close> holds: nothing; a text on which
  \<^verbatim>\<open>JSON.parse\<close> or the property read throws; or a user with its \<^verbatim>\<open>access_token\<close> and
  \<^verbatim>\<open>token\<close> fields (\<open>None\<close>: the field is absent).
\<close>

datatype stored_user = NoUserData | BadUserData | UserData "jval option" "jval option"

text \<open>
  The URL of a connection, kept by the two parts that vary: the debate id and the token
  (the protocol and host prefix and the percent-encoding are left out).
\<close>

datatype ws_url = WsUrl string string

text \<open>
  A browser \<^verbatim>\<open>WebSocket\<close>: its \<^verbatim>\<open>readyState\<close> and the frames handed to it by
  \<^verbatim>\<open>ws.send\<close> while open. A frame on the wire is the text \<^verbatim>\<open>send\<close> passes on: a
  string message as it is, any other message through \<^verbatim>\<open>JSON.stringify\<close>.
\<close>

datatype ready_state = CONNECTING | OPEN | CLOSING | CLOSED

datatype wire = WText string | WJson jval

record socket =
  url :: ws_url
  readyState :: ready_state
  sent :: "wire list"

text \<open>
  An outbound message: a string, a value \<^verbatim>\<open>JSON.stringify\<close> serialises, or a value on
  which it throws (a cyclic object, a BigInt).
\<close>

datatype message = Text string | Object jval | Unserializable

fun stringify :: "message \<Rightarrow> wire option" where
  "stringify (Text t) = Some (WText t)"
| "stringify (Object j) = Some (WJson j)"
| "stringify Unserializable = None"

text \<open>An inbound frame, by what \<^verbatim>\<open>JSON.parse(event.data)\<close> does with it.\<close>

datatype frame = Malformed string | Parses jval

text \<open>The argument of a handler call.\<close>

datatype payload =
    NoData
  | Data jval
  | ErrorObj js_error
  | ErrorEvent
  | CloseEvent nat

text \<open>The lines written to the console, by kind instead of by their text.\<close>

datatype console_entry =
    ErrGetToken
  | LogAlreadyConnected
  | LogConnecting ws_url
  | ErrConnectFailed js_error
  | LogOpened
  | LogMessage jval
  | WarnUnknownType jval
  | ErrParseFailed
  | ErrSocketError
  | LogClosed nat
  | ErrConnectionError js_error
  | LogMaxAttempts
  | LogReconnectIn int nat
  | WarnQueued
  | ErrSendFailed

text \<open>
  The state: the fields of a \<^verbatim>\<open>WebSocketClient\<close> instance, followed by the part of the
  browser the instance acts on. \<open>ws\<close>, \<open>reconnectTimer\<close> and \<open>heartbeatTimer\<close> are
  references (\<open>None\<close> is \<^verbatim>\<open>null\<close>): a socket is named by its position in \<open>sockets\<close>,
  which lists every socket the instance has constructed, and a timer by its id (ids
  start at 1, so an id is truthy). \<open>timeouts\<close> are the pending single-shot timers with
  their delays; each was set by \<^verbatim>\<open>scheduleReconnect\<close> and runs \<^verbatim>\<open>connect()\<close>.
  \<open>intervals\<close> are the running heartbeat intervals. \<open>eventHandlers\<close> maps a channel
  name to the handler registered for it; \<open>emitted\<close> lists every \<^verbatim>\<open>emit\<close> with the
  handler it called, if any.

  A handler is an opaque callback that does not call back into the instance. Only
  \<^verbatim>\<open>handleMessage\<close> catches what a handler throws, and there the handlers that throw
  are a parameter. In every other method an exception of a handler would leave the
  callback with nothing to catch it; there the model takes the handlers to return
  normally.
\<close>

record state =
  config :: reconnect_config
  debateId :: string
  token :: "jval option"
  ws :: "nat option"
  isConnecting :: bool
  isConnected :: bool
  shouldReconnect :: bool
  reconnectAttempts :: nat
  reconnectTimer :: "nat option"
  heartbeatTimer :: "nat option"
  messageQueue :: "message list"
  eventHandlers :: "string \<Rightarrow> nat option"
  localStorage :: stored_user
  sockets :: "socket list"
  timeouts :: "(nat \<times> int) list"
  intervals :: "(nat \<times> int) list"
  nextTimer :: nat
  emitted :: "(string \<times> payload \<times> nat option) list"
  console :: "console_entry list"

definition console_log :: "console_entry \<Rightarrow> state \<Rightarrow> state" where
  "console_log e s = s\<lparr>console := console s @ [e]\<rparr>"

subsection \<open>Browser primitives\<close>

definition setTimeout :: "int \<Rightarrow> state \<Rightarrow> nat \<times> state" where
  "setTimeout d s =
     (nextTimer s, s\<lparr>timeouts := timeouts s @ [(nextTimer s, d)], nextTimer := nextTimer s + 1\<rparr>)"

definition clearTimeout :: "nat \<Rightarrow> state \<Rightarrow> state" where
  "clearTimeout t s = s\<lparr>timeouts := filter (\<lambda>p. fst p \<noteq> t) (timeouts s)\<rparr>"

definition setInterval :: "int \<Rightarrow> state \<Rightarrow> nat \<times> state" where
  "setInterval d s =
     (nextTimer s, s\<lparr>intervals := intervals s @ [(nextTimer s, d)], nextTimer := nextTimer s + 1\<rparr>)"

definition clearInterval :: "nat \<Rightarrow> state \<Rightarrow> state" where
  "clearInterval t s = s\<lparr>intervals := filter (\<lambda>p. fst p \<noteq> t) (intervals s)\<rparr>"

definition set_readyState :: "nat \<Rightarrow> ready_state \<Rightarrow> state \<Rightarrow> state" where
  "set_readyState i r s = s\<lparr>sockets := (sockets s)[i := (sockets s ! i)\<lparr>readyState := r\<rparr>]\<rparr>"

text \<open>
  \<^verbatim>\<open>socket.send(text)\<close>: throws while the socket is connecting (\<open>None\<close>), transmits
  while it is open, and discards the text without an error once it is closing or closed.
  A reference always names a constructed socket, so the last branch is never reached.
\<close>

definition ws_send :: "nat \<Rightarrow> wire \<Rightarrow> state \<Rightarrow> state option" where
  "ws_send i w s =
     (if i < length (sockets s) then
        (case readyState (sockets s ! i) of
           CONNECTING \<Rightarrow> None
         | OPEN \<Rightarrow> Some (s\<lparr>sockets := (sockets s)[i := (sockets s ! i)\<lparr>sent := sent (sockets s ! i) @ [w]\<rparr>]\<rparr>)
         | CLOSING \<Rightarrow> Some s
         | CLOSED \<Rightarrow> Some s)
      else None)"

text \<open>\<^verbatim>\<open>socket.close()\<close>: starts the closing handshake of a connecting or open socket.\<close>

definition ws_close :: "nat \<Rightarrow> state \<Rightarrow> state" where
  "ws_close i s =
     (if i < length (sockets s) \<and> readyState (sockets s ! i) \<in> {CONNECTING, OPEN}
        then set_readyState i CLOSING s else s)"

text \<open>\<^verbatim>\<open>new WebSocket(url)\<close>: a new connecting socket; the reference to it.\<close>

definition new_WebSocket :: "ws_url \<Rightarrow> state \<Rightarrow> nat \<times> state" where
  "new_WebSocket u s =
     (length (sockets s),
      s\<lparr>sockets := sockets s @ [\<lparr>url = u, readyState = CONNECTING, sent = []\<rparr>]\<rparr>)"

text \<open>The sockets of the instance that are connecting or open.\<close>

definition live_sockets :: "state \<Rightarrow> nat" where
  "live_sockets s = length (filter (\<lambda>k. readyState k = CONNECTING \<or> readyState k = OPEN) (sockets s))"

subsection \<open>The methods of \<^verbatim>\<open>WebSocketClient\<close>\<close>

definition emit :: "string \<Rightarrow> payload \<Rightarrow> state \<Rightarrow> state" where
  "emit eventName data s = s\<lparr>emitted := emitted s @ [(eventName, data, eventHandlers s eventName)]\<rparr>"

definition on_handler :: "string \<Rightarrow> nat \<Rightarrow> state \<Rightarrow> state" where
  "on_handler eventName handler s = s\<lparr>eventHandlers := (eventHandlers s)(eventName \<mapsto> handler)\<rparr>"

definition off_handler :: "string \<Rightarrow> state \<Rightarrow> state" where
  "off_handler eventName s = s\<lparr>eventHandlers := (eventHandlers s)(eventName := None)\<rparr>"

text \<open>
  \<^verbatim>\<open>getToken\<close> assigns \<^verbatim>\<open>this.token\<close> only when the store holds a user; with an empty
  or unreadable store the field keeps the value of an earlier read.
\<close>

definition getToken :: "state \<Rightarrow> state" where
  "getToken s =
     (case localStorage s of
        NoUserData \<Rightarrow> s
      | BadUserData \<Rightarrow> console_log ErrGetToken s
      | UserData a t \<Rightarrow> s\<lparr>token := js_or a t\<rparr>)"

definition missing_token :: js_error where
  "missing_token = Error ''Error'' ''missing auth token''"

definition buildUrl :: "state \<Rightarrow> js_error + ws_url" where
  "buildUrl s =
     (if \<not> truthy (token s) then Inl missing_token
      else Inr (WsUrl (debateId s) (to_string (token s))))"

definition scheduleReconnect :: "state \<Rightarrow> state" where
  "scheduleReconnect s =
     (if reconnectAttempts s \<ge> wsMaxAttempts (config s) then
        emit ''onReconnectFailed'' NoData (console_log LogMaxAttempts s)
      else
        (let delay = min (baseDelay (config s) * wsBackoffMultiplier (config s) ^ reconnectAttempts s)
                         (maxDelay (config s));
             s1 = s\<lparr>reconnectAttempts := reconnectAttempts s + 1\<rparr>;
             s2 = console_log (LogReconnectIn delay (reconnectAttempts s1)) s1;
             (t, s3) = setTimeout delay s2
         in s3\<lparr>reconnectTimer := Some t\<rparr>))"

definition handleConnectionError :: "js_error \<Rightarrow> state \<Rightarrow> state" where
  "handleConnectionError error s =
     (let s1 = emit ''onError'' (ErrorObj error) (console_log (ErrConnectionError error) s)
      in if shouldReconnect s1 \<and> enabled (config s1) then scheduleReconnect s1 else s1)"

text \<open>
  \<^verbatim>\<open>setupEventHandlers\<close> attaches the four callbacks to the new socket; in the model
  every socket of \<open>sockets\<close> delivers its events to the instance (see the events below),
  and nothing ever detaches them.
\<close>

definition connect :: "state \<Rightarrow> state" where
  "connect s =
     (if isConnecting s \<or> isConnected s then console_log LogAlreadyConnected s
      else
        (let s1 = getToken (s\<lparr>isConnecting := True\<rparr>) in
         case buildUrl s1 of
           Inr u \<Rightarrow>
             (let (i, s2) = new_WebSocket u (console_log (LogConnecting u) s1)
              in s2\<lparr>ws := Some i\<rparr>)
         | Inl error \<Rightarrow>
             handleConnectionError error ((console_log (ErrConnectFailed error) s1)\<lparr>isConnecting := False\<rparr>)))"

definition stopHeartbeat :: "state \<Rightarrow> state" where
  "stopHeartbeat s =
     (case heartbeatTimer s of
        None \<Rightarrow> s
      | Some t \<Rightarrow> (clearInterval t s)\<lparr>heartbeatTimer := None\<rparr>)"

definition startHeartbeat :: "state \<Rightarrow> state" where
  "startHeartbeat s =
     (let (t, s1) = setInterval (heartbeatInterval (config s)) (stopHeartbeat s)
      in s1\<lparr>heartbeatTimer := Some t\<rparr>)"

definition resetHeartbeat :: "state \<Rightarrow> state" where
  "resetHeartbeat s = s"

text \<open>\<^verbatim>\<open>send\<close> returns \<^verbatim>\<open>true\<close> when the message was handed to the socket.\<close>

definition send :: "message \<Rightarrow> state \<Rightarrow> bool \<times> state" where
  "send m s =
     (if \<not> isConnected s \<or> ws s = None then
        (False, (console_log WarnQueued s)\<lparr>messageQueue := messageQueue s @ [m]\<rparr>)
      else
        (case stringify m of
           None \<Rightarrow> (False, (console_log ErrSendFailed s)\<lparr>messageQueue := messageQueue s @ [m]\<rparr>)
         | Some w \<Rightarrow>
             (case ws_send (the (ws s)) w s of
                None \<Rightarrow> (False, (console_log ErrSendFailed s)\<lparr>messageQueue := messageQueue s @ [m]\<rparr>)
              | Some s1 \<Rightarrow> (True, s1))))"

lemma send_True_messageQueue:
  "fst (send m s) \<Longrightarrow> messageQueue (snd (send m s)) = messageQueue s"
  by (auto simp: send_def ws_send_def split: option.splits if_splits ready_state.splits)

function flushMessageQueue :: "state \<Rightarrow> state" where
  "flushMessageQueue s =
     (case messageQueue s of
        [] \<Rightarrow> s
      | m # rest \<Rightarrow>
          (let r = send m (s\<lparr>messageQueue := rest\<rparr>)
           in if fst r then flushMessageQueue (snd r) else snd r))"
  by pat_completeness auto
termination
  by (relation "measure (\<lambda>s. length (messageQueue s))") (auto simp: send_True_messageQueue)

declare flushMessageQueue.simps [simp del]

definition handleOpen :: "state \<Rightarrow> state" where
  "handleOpen s =
     (let s1 = (console_log LogOpened s)\<lparr>isConnecting := False, isConnected := True, reconnectAttempts := 0\<rparr>;
          s2 = flushMessageQueue s1;
          s3 = startHeartbeat s2
      in emit ''onOpen'' NoData s3)"

text \<open>
  \<^verbatim>\<open>handleMessage\<close>. The \<^verbatim>\<open>switch\<close> compares \<^verbatim>\<open>data.type\<close> with the six strings of
  \<^verbatim>\<open>WSMessageType\<close>; it is entered only when \<^verbatim>\<open>data.type\<close> is truthy. The whole body
  is one \<^verbatim>\<open>try\<close>, and its \<^verbatim>\<open>catch\<close> writes the parse diagnostic. Three things end
  there: a frame \<^verbatim>\<open>JSON.parse\<close> throws on; a frame that parses to \<^verbatim>\<open>null\<close>, which
  throws at \<^verbatim>\<open>data.type\<close> after the message was logged; and an exception of a handler
  that \<^verbatim>\<open>emit\<close> calls, after which the rest of the body is skipped. \<open>throwing\<close> lists
  the channels whose handler throws on this frame; a channel without a handler calls
  nothing, so nothing is thrown.
\<close>

definition channel_of :: "jval option \<Rightarrow> string option" where
  "channel_of t =
     (if t = Some (JStr ''speech'') then Some ''onSpeech''
      else if t = Some (JStr ''status'') then Some ''onStatus''
      else if t = Some (JStr ''score'') then Some ''onScore''
      else if t = Some (JStr ''notification'') then Some ''onNotification''
      else if t = Some (JStr ''error'') then Some ''onError''
      else if t = Some (JStr ''connected'') then Some ''onConnected''
      else None)"

definition handler_throws :: "string list \<Rightarrow> state \<Rightarrow> string \<Rightarrow> bool" where
  "handler_throws throwing s eventName =
     (eventHandlers s eventName \<noteq> None \<and> eventName \<in> set throwing)"

text \<open>\<^verbatim>\<open>this.emit(eventName, data)\<close> inside the \<^verbatim>\<open>try\<close>: whether it threw, and the state.\<close>

definition emit_caught :: "string list \<Rightarrow> string \<Rightarrow> payload \<Rightarrow> state \<Rightarrow> bool \<times> state" where
  "emit_caught throwing eventName data s =
     (handler_throws throwing s eventName, emit eventName data s)"

definition handleMessage :: "string list \<Rightarrow> frame \<Rightarrow> state \<Rightarrow> state" where
  "handleMessage throwing f s =
     (case f of
        Malformed txt \<Rightarrow> console_log ErrParseFailed s
      | Parses data \<Rightarrow>
          (let s1 = resetHeartbeat (console_log (LogMessage data) s) in
           case get_prop data ''type'' of
             None \<Rightarrow> console_log ErrParseFailed s1
           | Some t \<Rightarrow>
               (let r =
                  (if truthy t then
                     (case channel_of t of
                        Some ch \<Rightarrow> emit_caught throwing ch (Data data) s1
                      | None \<Rightarrow> (False, console_log (WarnUnknownType (the t)) s1))
                   else (False, s1))
                in if fst r then console_log ErrParseFailed (snd r)
                   else
                     (let r2 = emit_caught throwing ''onMessage'' (Data data) (snd r)
                      in if fst r2 then console_log ErrParseFailed (snd r2) else snd r2))))"

definition handleError :: "state \<Rightarrow> state" where
  "handleError s = emit ''onError'' ErrorEvent (console_log ErrSocketError s)"

definition handleClose :: "nat \<Rightarrow> state \<Rightarrow> state" where
  "handleClose code s =
     (let s1 = (console_log (LogClosed code) s)\<lparr>isConnecting := False, isConnected := False\<rparr>;
          s2 = stopHeartbeat s1;
          s3 = emit ''onClose'' (CloseEvent code) s2
      in if shouldReconnect s3 \<and> enabled (config s3) then scheduleReconnect s3 else s3)"

definition disconnect :: "state \<Rightarrow> state" where
  "disconnect s =
     (let s1 = s\<lparr>shouldReconnect := False\<rparr>;
          s2 = (case reconnectTimer s1 of
                  None \<Rightarrow> s1
                | Some t \<Rightarrow> (clearTimeout t s1)\<lparr>reconnectTimer := None\<rparr>);
          s3 = stopHeartbeat s2;
          s4 = (case ws s3 of
                  None \<Rightarrow> s3
                | Some i \<Rightarrow> (ws_close i s3)\<lparr>ws := None\<rparr>)
      in s4\<lparr>isConnected := False, isConnecting := False\<rparr>)"

definition reconnect :: "state \<Rightarrow> state" where
  "reconnect s = connect ((disconnect s)\<lparr>shouldReconnect := True, reconnectAttempts := 0\<rparr>)"

text \<open>The constructor: the fields as initialised, then \<^verbatim>\<open>this.getToken()\<close>.\<close>

definition WebSocketClient ::
  "string \<Rightarrow> (string \<Rightarrow> nat option) \<Rightarrow> reconnect_config \<Rightarrow> stored_user \<Rightarrow> state" where
  "WebSocketClient did handlers cfg store =
     getToken \<lparr>
       config = cfg, debateId = did, token = None, ws = None,
       isConnecting = False, isConnected = False, shouldReconnect = True,
       reconnectAttempts = 0, reconnectTimer = None, heartbeatTimer = None,
       messageQueue = [], eventHandlers = handlers, localStorage = store,
       sockets = [], timeouts = [], intervals = [], nextTimer = 1,
       emitted = [], console = [] \<rparr>"

subsection \<open>Events\<close>

text \<open>
  What can happen to an instance: a call of its API, an event of one of its sockets, a
  timer that fires, a change of the store. An event is possible only in some states: a
  socket opens only while it is connecting, closes only once, and delivers frames only
  while it is open (with the channels whose handler throws on that frame); a timer fires
  only while it is pending. \<open>step\<close> gives \<open>None\<close> for an event that is not possible. The callback of a timeout is \<^verbatim>\<open>connect()\<close>; the
  callback of the heartbeat interval sends the ping when the instance is connected (an
  exception of \<^verbatim>\<open>ws.send\<close> there is not caught and changes nothing).
\<close>

datatype event =
    CallConnect
  | CallDisconnect
  | CallReconnect
  | CallSend message
  | SocketOpens nat
  | SocketErrors nat
  | SocketCloses nat nat
  | SocketDelivers nat frame "string list"
  | TimeoutFires nat
  | IntervalFires nat
  | StoreBecomes stored_user

definition ping :: wire where
  "ping = WJson (JObj [(''type'', JStr ''ping'')])"

definition heartbeat_tick :: "state \<Rightarrow> state" where
  "heartbeat_tick s =
     (if isConnected s \<and> ws s \<noteq> None then
        (case ws_send (the (ws s)) ping s of None \<Rightarrow> s | Some s1 \<Rightarrow> s1)
      else s)"

definition socket_is :: "nat \<Rightarrow> ready_state list \<Rightarrow> state \<Rightarrow> bool" where
  "socket_is i rs s = (i < length (sockets s) \<and> readyState (sockets s ! i) \<in> set rs)"

fun step :: "event \<Rightarrow> state \<Rightarrow> state option" where
  "step CallConnect s = Some (connect s)"
| "step CallDisconnect s = Some (disconnect s)"
| "step CallReconnect s = Some (reconnect s)"
| "step (CallSend m) s = Some (snd (send m s))"
| "step (SocketOpens i) s =
     (if socket_is i [CONNECTING] s then Some (handleOpen (set_readyState i OPEN s)) else None)"
| "step (SocketErrors i) s =
     (if socket_is i [CONNECTING, OPEN, CLOSING] s then Some (handleError s) else None)"
| "step (SocketCloses i code) s =
     (if socket_is i [CONNECTING, OPEN, CLOSING] s
        then Some (handleClose code (set_readyState i CLOSED s)) else None)"
| "step (SocketDelivers i f throwing) s =
     (if socket_is i [OPEN] s then Some (handleMessage throwing f s) else None)"
| "step (TimeoutFires t) s =
     (if t \<in> set (map fst (timeouts s)) then Some (connect (clearTimeout t s)) else None)"
| "step (IntervalFires t) s =
     (if t \<in> set (map fst (intervals s)) then Some (heartbeat_tick s) else None)"
| "step (StoreBecomes u) s = Some (s\<lparr>localStorage := u\<rparr>)"

fun run :: "event list \<Rightarrow> state \<Rightarrow> state option" where
  "run [] s = Some s"
| "run (e # es) s = (case step e s of None \<Rightarrow> None | Some s1 \<Rightarrow> run es s1)"

subsection \<open>The client registry of the API client\<close>

text \<open>
  \<^verbatim>\<open>getToken\<close> of \<^verbatim>\<open>part_000\<close> reads the same store and returns the token or
  \<^verbatim>\<open>null\<close>. \<^verbatim>\<open>apiClient.connectWebSocket\<close> works on the module's map \<^verbatim>\<open>wsClients\<close>
  from the debate id to its client: the model takes the map and returns the updated
  one with the client, or the thrown error. The handlers are the entries of the
  \<^verbatim>\<open>eventHandlers\<close> object, in the order of \<^verbatim>\<open>Object.keys\<close> (keys distinct).
\<close>

definition api_getToken :: "stored_user \<Rightarrow> jval option" where
  "api_getToken store =
     (case store of
        UserData a t \<Rightarrow> js_or a t
      | NoUserData \<Rightarrow> None
      | BadUserData \<Rightarrow> None)"

definition unauthorized :: js_error where
  "unauthorized = APIError ''missing auth token'' 401 None"

definition connectWebSocket ::
  "(string \<Rightarrow> state option) \<Rightarrow> stored_user \<Rightarrow> string \<Rightarrow> (string \<times> nat) list \<Rightarrow> reconnect_config
   \<Rightarrow> js_error + ((string \<Rightarrow> state option) \<times> state)" where
  "connectWebSocket wsClients store did handlers cfg =
     (if \<not> truthy (api_getToken store) then Inl unauthorized
      else
        (let fresh = connect (WebSocketClient did (map_of handlers) cfg store) in
         case wsClients did of
           None \<Rightarrow> Inr (wsClients(did \<mapsto> fresh), fresh)
         | Some existingClient \<Rightarrow>
             (if isConnected existingClient then
                (let c = fold (\<lambda>kh. on_handler (fst kh) (snd kh)) handlers existingClient
                 in Inr (wsClients(did \<mapsto> c), c))
              else Inr (wsClients(did \<mapsto> fresh), fresh))))"

subsection \<open>Notions used in the statements\<close>

text \<open>
  The field \<^verbatim>\<open>this.token\<close> once \<^verbatim>\<open>getToken()\<close> has run, which is what \<^verbatim>\<open>buildUrl\<close>
  tests. It is the token of the store when the store holds a user; when the store is
  empty or unreadable it is whatever an earlier read left in the field, so it need not
  be what the store yields at connect time (that is \<open>api_getToken\<close> of the store).
\<close>

definition token_after_read :: "state \<Rightarrow> jval option" where
  "token_after_read s = token (getToken s)"

fun read_token :: "stored_user \<Rightarrow> jval option \<Rightarrow> jval option" where
  "read_token (UserData a t) old = js_or a t"
| "read_token NoUserData old = old"
| "read_token BadUserData old = old"

fun read_log :: "stored_user \<Rightarrow> console_entry list" where
  "read_log BadUserData = [ErrGetToken]"
| "read_log NoUserData = []"
| "read_log (UserData a t) = []"

text \<open>How often the reconnect-failed notification was emitted.\<close>

definition failed_count :: "state \<Rightarrow> nat" where
  "failed_count s = length (filter (\<lambda>e. fst e = ''onReconnectFailed'') (emitted s))"

text \<open>The delay \<^verbatim>\<open>scheduleReconnect\<close> computes in a state.\<close>

definition reconnect_delay :: "state \<Rightarrow> int" where
  "reconnect_delay s =
     min (baseDelay (config s) * wsBackoffMultiplier (config s) ^ reconnectAttempts s)
         (maxDelay (config s))"

text \<open>The pending timers left by \<^verbatim>\<open>clearTimeout\<close> or \<^verbatim>\<open>clearInterval\<close> of a reference.\<close>

definition cancel :: "nat option \<Rightarrow> (nat \<times> int) list \<Rightarrow> (nat \<times> int) list" where
  "cancel r ts = (case r of None \<Rightarrow> ts | Some t \<Rightarrow> filter (\<lambda>p. fst p \<noteq> t) ts)"

text \<open>The sockets after \<^verbatim>\<open>close()\<close> of the referenced one.\<close>

definition closing :: "nat option \<Rightarrow> socket list \<Rightarrow> socket list" where
  "closing r ss =
     (case r of
        None \<Rightarrow> ss
      | Some i \<Rightarrow>
          (if i < length ss \<and> (readyState (ss ! i) = CONNECTING \<or> readyState (ss ! i) = OPEN)
             then ss[i := (ss ! i)\<lparr>readyState := CLOSING\<rparr>] else ss))"

text \<open>
  The states the branches of \<^verbatim>\<open>handleClose\<close> and \<^verbatim>\<open>connect\<close> reach before a
  reconnect is scheduled: after a closure, after a socket was constructed, and after
  \<^verbatim>\<open>buildUrl\<close> threw.
\<close>

definition closed_state :: "nat \<Rightarrow> state \<Rightarrow> state" where
  "closed_state code s =
     s\<lparr>console := console s @ [LogClosed code], isConnecting := False, isConnected := False,
       intervals := cancel (heartbeatTimer s) (intervals s),
       heartbeatTimer := None,
       emitted := emitted s @ [(''onClose'', CloseEvent code, eventHandlers s ''onClose'')]\<rparr>"

definition opened_state :: "state \<Rightarrow> state" where
  "opened_state s =
     s\<lparr>isConnecting := True, token := token_after_read s,
       console := console s @ read_log (localStorage s)
                  @ [LogConnecting (WsUrl (debateId s) (to_string (token_after_read s)))],
       sockets := sockets s
                  @ [\<lparr>url = WsUrl (debateId s) (to_string (token_after_read s)),
                       readyState = CONNECTING, sent = []\<rparr>],
       ws := Some (length (sockets s))\<rparr>"

definition refused_state :: "state \<Rightarrow> state" where
  "refused_state s =
     s\<lparr>token := token_after_read s, isConnecting := False,
       console := console s @ read_log (localStorage s)
                  @ [ErrConnectFailed missing_token, ErrConnectionError missing_token],
       emitted := emitted s @ [(''onError'', ErrorObj missing_token, eventHandlers s ''onError'')]\<rparr>"

text \<open>
  One automatic reconnect attempt that fails: the first pending timer fires and runs
  \<^verbatim>\<open>connect()\<close>; when \<^verbatim>\<open>connect()\<close> constructed a socket, the connection fails, and the
  socket delivers its error event and its close event (code 1006).
\<close>

definition failed_attempt :: "state \<Rightarrow> state" where
  "failed_attempt s =
     (case timeouts s of
        [] \<Rightarrow> s
      | p # ps \<Rightarrow>
          (let s1 = connect (clearTimeout (fst p) s) in
           if length (sockets s) < length (sockets s1)
             then handleClose 1006 (set_readyState (length (sockets s)) CLOSED (handleError s1))
             else s1))"

text \<open>A state from which an automatic reconnect will run.\<close>

definition ready :: "state \<Rightarrow> bool" where
  "ready s = (shouldReconnect s \<and> enabled (config s) \<and> \<not> isConnecting s \<and> \<not> isConnected s)"

subsection \<open>Concrete clients\<close>

definition stored_token :: stored_user where
  "stored_token = UserData (Some (JStr ''tok'')) None"

definition demo_handlers :: "string \<Rightarrow> nat option" where
  "demo_handlers = [''onSpeech'' \<mapsto> 1, ''onMessage'' \<mapsto> 2, ''onReconnectFailed'' \<mapsto> 3]"

text \<open>A new client with the default configuration, and the same client once connected.\<close>

definition demo_client :: state where
  "demo_client = WebSocketClient ''42'' demo_handlers RECONNECT_CONFIG stored_token"

definition open_client :: state where
  "open_client = handleOpen (set_readyState 0 OPEN (connect demo_client))"

text \<open>The connected client at the moment its socket has closed.\<close>

definition dropped_client :: state where
  "dropped_client = set_readyState 0 CLOSED open_client"

text \<open>A connected client whose configuration disables the automatic reconnect.\<close>

definition disabled_client :: state where
  "disabled_client =
     handleOpen (set_readyState 0 OPEN
       (connect (WebSocketClient ''42'' demo_handlers (RECONNECT_CONFIG\<lparr>enabled := False\<rparr>) stored_token)))"




section \<open>Properties of the request executor\<close>

subsection \<open>Unfolding one retry\<close>

lemma fetchWithRetry_retry_step:
  assumes "attempt_once (fetch n) = Inl e" and "isRetryableError cfg e" and "n < maxAttempts cfg"
  shows "fetchWithRetry cfg fetch n =
     (fst (fetchWithRetry cfg fetch (Suc n)),
      Fetch n # Sleep (delayMs cfg n) # snd (fetchWithRetry cfg fetch (Suc n)))"
  using assms by (subst fetchWithRetry.simps) (simp add: Let_def)



text \<open>
  With the shipped configuration an execution sleeps at most twice, 1000 ms and then
  2000 ms, whatever the transport does.
\<close>

lemma RETRY_CONFIG_sleeps:
  "sleeps (snd (fetchWithRetry RETRY_CONFIG fetch 1)) \<in> {[], [1000], [1000, 2000]}"
  apply (subst fetchWithRetry.simps)
  apply (subst fetchWithRetry.simps)
  apply (subst fetchWithRetry.simps)
  apply (auto simp: Let_def RETRY_CONFIG_def delayMs_def split: sum.splits)
  done

subsection \<open>C1: the backoff delay\<close>






subsection \<open>C2: non-retryable statuses\<close>

text \<open>
  C2: when the response of an attempt is a failure (not ok) whose status is listed in
  \<open>nonRetryableStatuses\<close>, the executor makes that one transport call and rejects with
  the \<open>APIError\<close> of that status. Nothing is assumed about \<open>maxAttempts\<close> or about
  \<open>retryableStatuses\<close>: \<^verbatim>\<open>isRetryableError\<close> tests the non-retryable list first. The
  witness runs a policy of five attempts that lists 503 in both lists.
\<close>

theorem nonRetryable_single_attempt:
  assumes "st \<in> set (nonRetryableStatuses cfg)" and "fetch n = Responds r"
    and "status r = st" and "\<not> ok r"
  shows "fetchWithRetry cfg fetch n =
           (Inl (APIError (errorMessage r) st (errorData r)), [Fetch n])"
  using assms by (subst fetchWithRetry.simps) (simp add: isRetryableError_def)

theorem nonRetryable_single_attempt_witness:
  "503 \<in> set (nonRetryableStatuses overlapping_policy)
   \<and> 503 \<in> set (retryableStatuses overlapping_policy)
   \<and> maxAttempts overlapping_policy = 5
   \<and> always_status 503 1 = Responds (plain_response 503)
   \<and> status (plain_response 503) = 503 \<and> \<not> ok (plain_response 503)
   \<and> fetchWithRetry overlapping_policy (always_status 503) 1 =
       (Inl (APIError ''HTTP 503'' 503 None), [Fetch 1])"
proof -
  have a: "503 \<in> set (nonRetryableStatuses overlapping_policy)"
    by (simp add: overlapping_policy_def)
  have b: "always_status 503 1 = Responds (plain_response 503)"
    by (simp add: always_status_def)
  have c: "status (plain_response 503) = 503" by (simp add: plain_response_def)
  have d: "\<not> ok (plain_response 503)" by (simp add: plain_response_def ok_def)
  have e: "errorMessage (plain_response 503) = ''HTTP 503''"
    by (simp add: errorMessage_def plain_response_def is_json_type_def digit_char_def)
  have f: "errorData (plain_response 503) = None"
    by (simp add: errorData_def plain_response_def is_json_type_def)
  from nonRetryable_single_attempt [where fetch = "always_status 503" and n = 1, OF a b c d]
    a b c d e f
  show ?thesis by (simp add: overlapping_policy_def RETRY_CONFIG_def)
qed

subsection \<open>C3: success stops the retries\<close>

lemma retry_chain:
  "k - a = d \<Longrightarrow> a \<le> k \<Longrightarrow> \<forall>n. a \<le> n \<and> n < k \<longrightarrow> retryable_failure cfg (fetch n) \<Longrightarrow>
   k \<le> maxAttempts cfg \<Longrightarrow> fetch k = Responds r \<Longrightarrow> ok r \<Longrightarrow>
   fetchWithRetry cfg fetch a = (Inr r, backoff_actions cfg a k @ [Fetch k])"
proof (induction d arbitrary: a)
  case 0
  then have "a = k" by simp
  with 0 show ?case
    by (subst fetchWithRetry.simps) (simp add: backoff_actions_def)
next
  case (Suc d)
  then have lt: "a < k" by simp
  with Suc.prems have "retryable_failure cfg (fetch a)" by simp
  then obtain e where e: "attempt_once (fetch a) = Inl e" "isRetryableError cfg e"
    by (auto simp: retryable_failure_def split: sum.splits)
  have "fetchWithRetry cfg fetch (Suc a) = (Inr r, backoff_actions cfg (Suc a) k @ [Fetch k])"
    using Suc.prems lt by (intro Suc.IH) auto
  moreover have "a < maxAttempts cfg" using lt Suc.prems by simp
  ultimately show ?case
    using fetchWithRetry_retry_step [of fetch a e cfg] e lt
    by (simp add: backoff_actions_def upt_conv_Cons)
qed

text \<open>
  C3: when the attempts \<open>a, ..., k - 1\<close> fail with retryable errors and attempt
  \<open>k \<le> maxAttempts\<close> receives an ok response, the execution started at attempt \<open>a\<close>
  returns that response; its actions are the failed attempts, each followed by its
  backoff sleep, and then the transport call of attempt \<open>k\<close>, after which nothing
  happens. The witness is the scenario of the claim: under the policy with three
  attempts, delay 1000, multiplier 2 and retryable status 503, the answers 503, 503, 200
  give three transport calls with sleeps of 1000 and 2000 between them, and the caller
  receives the parsed body of the 200 response.
\<close>

theorem fetchWithRetry_success_stops:
  assumes "a \<le> k" and "\<forall>n. a \<le> n \<and> n < k \<longrightarrow> retryable_failure cfg (fetch n)"
    and "k \<le> maxAttempts cfg" and "fetch k = Responds r" and "ok r"
  shows "fetchWithRetry cfg fetch a = (Inr r, backoff_actions cfg a k @ [Fetch k])"
  using assms retry_chain [of k a "k - a" cfg fetch r] by simp

theorem fetchWithRetry_success_stops_witness:
  "(1::nat) \<le> 3
   \<and> retryable_failure scenario_policy (scenario_fetch 1)
   \<and> retryable_failure scenario_policy (scenario_fetch 2)
   \<and> 3 \<le> maxAttempts scenario_policy
   \<and> scenario_fetch 3 = Responds (json_response 200 scenario_body)
   \<and> ok (json_response 200 scenario_body)
   \<and> fetchWithRetry scenario_policy scenario_fetch 1 =
       (Inr (json_response 200 scenario_body),
        [Fetch 1, Sleep 1000, Fetch 2, Sleep 2000, Fetch 3])
   \<and> request scenario_policy scenario_fetch =
       (Inr (Some (JsonBody scenario_body)),
        [Fetch 1, Sleep 1000, Fetch 2, Sleep 2000, Fetch 3])"
proof -
  have a: "(1::nat) \<le> 3" by simp
  have b: "\<forall>n. 1 \<le> n \<and> n < 3 \<longrightarrow> retryable_failure scenario_policy (scenario_fetch n)"
    by (simp add: retryable_failure_def scenario_fetch_def plain_response_def ok_def
        isRetryableError_def scenario_policy_def)
  have c: "3 \<le> maxAttempts scenario_policy" by (simp add: scenario_policy_def)
  have d: "scenario_fetch 3 = Responds (json_response 200 scenario_body)"
    by (simp add: scenario_fetch_def)
  have e: "ok (json_response 200 scenario_body)" by (simp add: ok_def json_response_def)
  have f: "backoff_actions scenario_policy 1 3 = [Fetch 1, Sleep 1000, Fetch 2, Sleep 2000]"
    by (simp add: backoff_actions_def upt_conv_Cons delayMs_def scenario_policy_def)
  have g: "handleResponse (json_response 200 scenario_body) = Some (JsonBody scenario_body)"
    by (simp add: handleResponse_def json_response_def is_json_type_def)
  from fetchWithRetry_success_stops
         [where fetch = scenario_fetch and a = 1 and k = 3, OF a b c d e]
    a b c d e f g
  show ?thesis by (simp add: request_def)
qed

section \<open>Properties of the stream connection\<close>

subsection \<open>Normal forms of the methods\<close>

text \<open>
  Each method is first written as one record update of its argument, by cases on what
  it reads.
\<close>

lemma token_after_read_eq: "token_after_read s = read_token (localStorage s) (token s)"
  by (cases "localStorage s") (simp_all add: token_after_read_def getToken_def console_log_def)

lemma getToken_eq:
  "getToken s = s\<lparr>token := token_after_read s, console := console s @ read_log (localStorage s)\<rparr>"
  by (cases "localStorage s") (simp_all add: token_after_read_eq getToken_def console_log_def)

lemma stopHeartbeat_eq:
  "stopHeartbeat s = s\<lparr>intervals := cancel (heartbeatTimer s) (intervals s), heartbeatTimer := None\<rparr>"
  by (cases "heartbeatTimer s") (simp_all add: stopHeartbeat_def clearInterval_def cancel_def)

lemma scheduleReconnect_exhausted:
  "wsMaxAttempts (config s) \<le> reconnectAttempts s \<Longrightarrow>
   scheduleReconnect s =
     s\<lparr>console := console s @ [LogMaxAttempts],
       emitted := emitted s @ [(''onReconnectFailed'', NoData, eventHandlers s ''onReconnectFailed'')]\<rparr>"
  by (simp add: scheduleReconnect_def emit_def console_log_def)

lemma scheduleReconnect_schedules:
  "reconnectAttempts s < wsMaxAttempts (config s) \<Longrightarrow>
   scheduleReconnect s =
     s\<lparr>reconnectAttempts := reconnectAttempts s + 1,
       console := console s @ [LogReconnectIn (reconnect_delay s) (reconnectAttempts s + 1)],
       timeouts := timeouts s @ [(nextTimer s, reconnect_delay s)],
       nextTimer := nextTimer s + 1,
       reconnectTimer := Some (nextTimer s)\<rparr>"
  by (simp add: scheduleReconnect_def console_log_def setTimeout_def reconnect_delay_def Let_def)

lemma scheduleReconnect_frame [simp]:
  "config (scheduleReconnect s) = config s"
  "shouldReconnect (scheduleReconnect s) = shouldReconnect s"
  "isConnecting (scheduleReconnect s) = isConnecting s"
  "isConnected (scheduleReconnect s) = isConnected s"
  "sockets (scheduleReconnect s) = sockets s"
  "ws (scheduleReconnect s) = ws s"
  by (cases "reconnectAttempts s < wsMaxAttempts (config s)";
      simp add: scheduleReconnect_schedules scheduleReconnect_exhausted)+

lemma scheduleReconnect_effect:
  "timeouts (scheduleReconnect s) =
     (if reconnectAttempts s < wsMaxAttempts (config s)
      then timeouts s @ [(nextTimer s, reconnect_delay s)] else timeouts s)"
  "reconnectAttempts (scheduleReconnect s) =
     (if reconnectAttempts s < wsMaxAttempts (config s)
      then reconnectAttempts s + 1 else reconnectAttempts s)"
  "emitted (scheduleReconnect s) =
     (if reconnectAttempts s < wsMaxAttempts (config s) then emitted s
      else emitted s @ [(''onReconnectFailed'', NoData, eventHandlers s ''onReconnectFailed'')])"
  "reconnectTimer (scheduleReconnect s) =
     (if reconnectAttempts s < wsMaxAttempts (config s)
      then Some (nextTimer s) else reconnectTimer s)"
  by (cases "reconnectAttempts s < wsMaxAttempts (config s)";
      simp add: scheduleReconnect_schedules scheduleReconnect_exhausted)+

lemma handleClose_eq:
  "handleClose code s =
     (if shouldReconnect s \<and> enabled (config s)
      then scheduleReconnect (closed_state code s) else closed_state code s)"
  by (simp add: handleClose_def stopHeartbeat_eq emit_def console_log_def Let_def closed_state_def)

lemma connect_guard:
  "isConnecting s \<or> isConnected s \<Longrightarrow> connect s = console_log LogAlreadyConnected s"
  by (simp add: connect_def)

lemma connect_opens:
  "\<not> isConnecting s \<Longrightarrow> \<not> isConnected s \<Longrightarrow> truthy (token_after_read s) \<Longrightarrow>
   connect s = opened_state s"
  by (simp add: connect_def getToken_eq buildUrl_def new_WebSocket_def console_log_def
      opened_state_def Let_def token_after_read_eq)

lemma connect_refused:
  "\<not> isConnecting s \<Longrightarrow> \<not> isConnected s \<Longrightarrow> \<not> truthy (token_after_read s) \<Longrightarrow>
   connect s =
     (if shouldReconnect s \<and> enabled (config s)
      then scheduleReconnect (refused_state s) else refused_state s)"
  by (simp add: connect_def getToken_eq buildUrl_def handleConnectionError_def emit_def
      console_log_def refused_state_def Let_def token_after_read_eq)

lemma disconnect_eq:
  "disconnect s =
     s\<lparr>shouldReconnect := False, timeouts := cancel (reconnectTimer s) (timeouts s),
       reconnectTimer := None, intervals := cancel (heartbeatTimer s) (intervals s),
       heartbeatTimer := None, sockets := closing (ws s) (sockets s), ws := None,
       isConnected := False, isConnecting := False\<rparr>"
proof -
  have a: "(case reconnectTimer s of None \<Rightarrow> s\<lparr>shouldReconnect := False\<rparr>
            | Some t \<Rightarrow> (clearTimeout t (s\<lparr>shouldReconnect := False\<rparr>))\<lparr>reconnectTimer := None\<rparr>)
           = s\<lparr>shouldReconnect := False, timeouts := cancel (reconnectTimer s) (timeouts s),
               reconnectTimer := None\<rparr>"
    by (cases "reconnectTimer s") (simp_all add: clearTimeout_def cancel_def)
  have b: "(case ws x of None \<Rightarrow> x | Some i \<Rightarrow> (ws_close i x)\<lparr>ws := None\<rparr>)
           = x\<lparr>sockets := closing (ws x) (sockets x), ws := None\<rparr>" for x
    by (cases "ws x") (auto simp: ws_close_def set_readyState_def closing_def)
  show ?thesis
    by (simp add: disconnect_def Let_def a b stopHeartbeat_eq)
qed

lemma connect_sockets:
  "sockets (connect s) = sockets s
   \<or> (\<exists>k. sockets (connect s) = sockets s @ [k] \<and> readyState k = CONNECTING)"
proof (cases "isConnecting s \<or> isConnected s")
  case True
  then show ?thesis by (simp add: connect_guard console_log_def)
next
  case False
  then show ?thesis
    by (cases "truthy (token_after_read s)")
       (simp_all add: connect_opens connect_refused opened_state_def refused_state_def)
qed

text \<open>
  A failed attempt is a run of events: the timer fires, and when \<^verbatim>\<open>connect()\<close>
  constructed a socket, that socket delivers its error and its close.
\<close>

lemma failed_attempt_is_run:
  assumes "timeouts s = p # ps"
  shows "run [TimeoutFires (fst p)] s = Some (failed_attempt s)
     \<or> run [TimeoutFires (fst p), SocketErrors (length (sockets s)),
             SocketCloses (length (sockets s)) 1006] s = Some (failed_attempt s)"
proof -
  let ?s1 = "connect (clearTimeout (fst p) s)"
  have st: "step (TimeoutFires (fst p)) s = Some ?s1" using assms by simp
  have cs: "sockets (clearTimeout (fst p) s) = sockets s" by (simp add: clearTimeout_def)
  from connect_sockets [of "clearTimeout (fst p) s"]
  show ?thesis
  proof
    assume "sockets ?s1 = sockets (clearTimeout (fst p) s)"
    then have "failed_attempt s = ?s1" using assms cs by (simp add: failed_attempt_def)
    with st show ?thesis by simp
  next
    assume "\<exists>k. sockets ?s1 = sockets (clearTimeout (fst p) s) @ [k] \<and> readyState k = CONNECTING"
    then obtain k where k: "sockets ?s1 = sockets s @ [k]" "readyState k = CONNECTING"
      using cs by auto
    have fa: "failed_attempt s =
        handleClose 1006 (set_readyState (length (sockets s)) CLOSED (handleError ?s1))"
      using assms k by (simp add: failed_attempt_def)
    have e: "step (SocketErrors (length (sockets s))) ?s1 = Some (handleError ?s1)"
      using k by (simp add: socket_is_def)
    have he: "sockets (handleError ?s1) = sockets s @ [k]"
      using k by (simp add: handleError_def emit_def console_log_def)
    have c: "step (SocketCloses (length (sockets s)) 1006) (handleError ?s1) =
        Some (handleClose 1006 (set_readyState (length (sockets s)) CLOSED (handleError ?s1)))"
      using k he by (simp add: socket_is_def)
    show ?thesis using st e c fa by simp
  qed
qed

subsection \<open>C4: the outbound queue\<close>

text \<open>
  While the instance is not connected, \<^verbatim>\<open>send\<close> appends the message to the queue and
  returns \<^verbatim>\<open>false\<close>; a sequence of such calls queues the messages in call order.
\<close>

lemma send_while_not_connected:
  "\<not> isConnected s \<Longrightarrow>
   send m s = (False, (console_log WarnQueued s)\<lparr>messageQueue := messageQueue s @ [m]\<rparr>)"
  by (simp add: send_def)

lemma sends_while_not_connected:
  "\<not> isConnected s \<Longrightarrow>
   messageQueue (fold (\<lambda>m x. snd (send m x)) ms s) = messageQueue s @ ms
   \<and> \<not> isConnected (fold (\<lambda>m x. snd (send m x)) ms s)
   \<and> sockets (fold (\<lambda>m x. snd (send m x)) ms s) = sockets s"
  by (induction ms arbitrary: s) (simp_all add: send_while_not_connected console_log_def)

lemma send_transmits:
  assumes "isConnected s" "ws s = Some i" "i < length (sockets s)"
    "readyState (sockets s ! i) = OPEN" "stringify m = Some w"
  shows "send m s = (True, s\<lparr>sockets := (sockets s)[i := (sockets s ! i)\<lparr>sent := sent (sockets s ! i) @ [w]\<rparr>]\<rparr>)"
  using assms by (simp add: send_def ws_send_def)

lemma send_unserializable:
  assumes "isConnected s" "ws s = Some i" "stringify m = None"
  shows "send m s = (False, (console_log ErrSendFailed s)\<lparr>messageQueue := messageQueue s @ [m]\<rparr>)"
  using assms by (simp add: send_def)

text \<open>
  When the socket is open and every queued message serialises, \<^verbatim>\<open>flushMessageQueue\<close>
  hands the queue to the socket in order and leaves it empty; it runs inside
  \<^verbatim>\<open>handleOpen\<close>, before any later \<^verbatim>\<open>send\<close>.
\<close>

lemma flush_all:
  assumes "isConnected s" "ws s = Some i" "i < length (sockets s)" "readyState (sockets s ! i) = OPEN"
    "messageQueue s = q" "map stringify q = map Some wsq"
  shows "flushMessageQueue s =
     s\<lparr>messageQueue := [], sockets := (sockets s)[i := (sockets s ! i)\<lparr>sent := sent (sockets s ! i) @ wsq\<rparr>]\<rparr>"
  using assms
proof (induction q arbitrary: s wsq)
  case Nil
  then show ?case by (subst flushMessageQueue.simps) simp
next
  case (Cons m q)
  then obtain w wr where w: "wsq = w # wr" "stringify m = Some w" "map stringify q = map Some wr"
    by (cases wsq) auto
  let ?s0 = "s\<lparr>messageQueue := q\<rparr>"
  let ?s1 = "?s0\<lparr>sockets := (sockets s)[i := (sockets s ! i)\<lparr>sent := sent (sockets s ! i) @ [w]\<rparr>]\<rparr>"
  have snd: "send m ?s0 = (True, ?s1)"
    using Cons.prems w by (subst send_transmits [where i = i and w = w]) simp_all
  have "flushMessageQueue ?s1 =
     ?s1\<lparr>messageQueue := [], sockets := (sockets ?s1)[i := (sockets ?s1 ! i)\<lparr>sent := sent (sockets ?s1 ! i) @ wr\<rparr>]\<rparr>"
    using Cons.prems w by (intro Cons.IH) simp_all
  then show ?case
    using Cons.prems w snd by (subst flushMessageQueue.simps) simp
qed

text \<open>
  So the opening of the referenced socket transmits the whole queue, in order, within
  \<^verbatim>\<open>handleOpen\<close>.
\<close>

lemma handleOpen_drains:
  assumes "ws s = Some i" "i < length (sockets s)" "readyState (sockets s ! i) = OPEN"
    "map stringify (messageQueue s) = map Some wsq"
  shows "messageQueue (handleOpen s) = []
     \<and> sent (sockets (handleOpen s) ! i) = sent (sockets s ! i) @ wsq
     \<and> isConnected (handleOpen s)"
proof -
  let ?s1 = "s\<lparr>console := console s @ [LogOpened], isConnecting := False, isConnected := True,
      reconnectAttempts := 0\<rparr>"
  have f: "flushMessageQueue ?s1 =
     ?s1\<lparr>messageQueue := [], sockets := (sockets ?s1)[i := (sockets ?s1 ! i)\<lparr>sent := sent (sockets ?s1 ! i) @ wsq\<rparr>]\<rparr>"
    using assms by (intro flush_all [where q = "messageQueue s"]) simp_all
  show ?thesis
    using assms
    by (simp add: handleOpen_def Let_def f startHeartbeat_def stopHeartbeat_eq setInterval_def emit_def
        console_log_def)
qed

text \<open>
  When a message fails, draining stops, but \<^verbatim>\<open>send\<close> has queued the failed message
  again with \<^verbatim>\<open>push\<close>, that is behind the messages that were queued after it.
\<close>

lemma flush_stops_at_failure:
  assumes "isConnected s" "ws s = Some i" "i < length (sockets s)" "readyState (sockets s ! i) = OPEN"
    "messageQueue s = good @ bad # rest" "map stringify good = map Some wsq" "stringify bad = None"
  shows "flushMessageQueue s =
     s\<lparr>messageQueue := rest @ [bad],
       sockets := (sockets s)[i := (sockets s ! i)\<lparr>sent := sent (sockets s ! i) @ wsq\<rparr>],
       console := console s @ [ErrSendFailed]\<rparr>"
  using assms
proof (induction good arbitrary: s wsq)
  case Nil
  let ?s0 = "s\<lparr>messageQueue := rest\<rparr>"
  have "send bad ?s0 = (False, (console_log ErrSendFailed ?s0)\<lparr>messageQueue := messageQueue ?s0 @ [bad]\<rparr>)"
    using Nil by (intro send_unserializable [where i = i]) simp_all
  with Nil show ?case
    by (subst flushMessageQueue.simps) (simp add: console_log_def)
next
  case (Cons m good)
  then obtain w wr where w: "wsq = w # wr" "stringify m = Some w" "map stringify good = map Some wr"
    by (cases wsq) auto
  let ?s0 = "s\<lparr>messageQueue := good @ bad # rest\<rparr>"
  let ?s1 = "?s0\<lparr>sockets := (sockets s)[i := (sockets s ! i)\<lparr>sent := sent (sockets s ! i) @ [w]\<rparr>]\<rparr>"
  have snd: "send m ?s0 = (True, ?s1)"
    using Cons.prems w by (subst send_transmits [where i = i and w = w]) simp_all
  have "flushMessageQueue ?s1 =
     ?s1\<lparr>messageQueue := rest @ [bad],
         sockets := (sockets ?s1)[i := (sockets ?s1 ! i)\<lparr>sent := sent (sockets ?s1 ! i) @ wr\<rparr>],
         console := console ?s1 @ [ErrSendFailed]\<rparr>"
    using Cons.prems w by (intro Cons.IH) simp_all
  then show ?case
    using Cons.prems w snd by (subst flushMessageQueue.simps) simp
qed

text \<open>
  C4: three messages are sent to a new client, the first of which cannot be serialised
  (\<^verbatim>\<open>JSON.stringify\<close> throws inside the \<^verbatim>\<open>try\<close> of \<^verbatim>\<open>send\<close>); then the client
  connects and its socket opens. Draining stops at the first message, as the claim says,
  but the queue left for the next opening is \<open>b, c\<close> and then the failed message: the
  failed message has lost its place at the head, against the claim that the
  untransmitted messages, the failed one included, keep their relative order.
\<close>

theorem flush_requeues_failed_message_last:
  "map_option messageQueue
     (run [CallSend Unserializable, CallSend (Text ''b''), CallSend (Text ''c''),
           CallConnect, SocketOpens 0] demo_client)
   = Some [Text ''b'', Text ''c'', Unserializable]"
  by code_simp

subsection \<open>C5: inbound dispatch\<close>




lemma handler_throws_frame [simp]:
  "handler_throws thr (emit ch d s) ev = handler_throws thr s ev"
  "handler_throws thr (console_log e s) ev = handler_throws thr s ev"
  by (simp_all add: handler_throws_def emit_def console_log_def)



subsection \<open>C6: scheduling a reconnect\<close>

text \<open>
  C6, as stated, names two conditions for a closure to schedule a reconnect:
  \<open>shouldReconnect\<close> and an attempt count below \<open>maxAttempts\<close>. \<^verbatim>\<open>handleClose\<close> has
  a third, \<^verbatim>\<open>this.config.enabled\<close>: with the automatic reconnect disabled in the
  configuration, a closure of a connected client with \<open>shouldReconnect\<close> set and no
  attempt made schedules no timer and leaves the count as it is.
\<close>

theorem disabled_reconnect_schedules_nothing:
  "shouldReconnect disabled_client
   \<and> reconnectAttempts disabled_client < wsMaxAttempts (config disabled_client)
   \<and> timeouts disabled_client = []
   \<and> timeouts (handleClose 1006 disabled_client) = []
   \<and> reconnectAttempts (handleClose 1006 disabled_client) = reconnectAttempts disabled_client"
  by code_simp

text \<open>
  C6, amended: on a closure with \<open>shouldReconnect\<close> set, the reconnect enabled in the
  configuration, and the attempt count below \<open>maxAttempts\<close>, the pending timers grow by
  exactly one, whose delay is \<open>min (baseDelay * backoffMultiplier ^ attemptCount) maxDelay\<close>
  for the count before the increment; the count grows by one; \<open>reconnectTimer\<close> refers
  to the new timer; and when that timer fires it is removed and runs \<^verbatim>\<open>connect()\<close>.
\<close>

theorem handleClose_schedules_reconnect:
  assumes "shouldReconnect s" and "enabled (config s)"
    and "reconnectAttempts s < wsMaxAttempts (config s)"
  shows "timeouts (handleClose code s) =
           timeouts s @ [(nextTimer s,
              min (baseDelay (config s) * wsBackoffMultiplier (config s) ^ reconnectAttempts s)
                  (maxDelay (config s)))]
     \<and> reconnectAttempts (handleClose code s) = reconnectAttempts s + 1
     \<and> reconnectTimer (handleClose code s) = Some (nextTimer s)
     \<and> step (TimeoutFires (nextTimer s)) (handleClose code s) =
         Some (connect (clearTimeout (nextTimer s) (handleClose code s)))"
proof -
  have t: "timeouts (handleClose code s) = timeouts s @ [(nextTimer s, reconnect_delay s)]"
    using assms
    by (simp add: handleClose_eq scheduleReconnect_effect closed_state_def reconnect_delay_def)
  have a: "reconnectAttempts (handleClose code s) = reconnectAttempts s + 1"
    using assms by (simp add: handleClose_eq scheduleReconnect_effect closed_state_def)
  have r: "reconnectTimer (handleClose code s) = Some (nextTimer s)"
    using assms by (simp add: handleClose_eq scheduleReconnect_effect closed_state_def)
  show ?thesis
    using t a r by (simp add: reconnect_delay_def)
qed

theorem handleClose_schedules_reconnect_witness:
  "shouldReconnect dropped_client \<and> enabled (config dropped_client)
   \<and> reconnectAttempts dropped_client < wsMaxAttempts (config dropped_client)
   \<and> timeouts dropped_client = [] \<and> nextTimer dropped_client = 2
   \<and> reconnectAttempts dropped_client = 0
   \<and> timeouts (handleClose 1006 dropped_client) = [(2, 1000)]
   \<and> reconnectAttempts (handleClose 1006 dropped_client) = 1
   \<and> reconnectTimer (handleClose 1006 dropped_client) = Some 2"
proof -
  have a: "shouldReconnect dropped_client" by code_simp
  have b: "enabled (config dropped_client)" by code_simp
  have c: "reconnectAttempts dropped_client < wsMaxAttempts (config dropped_client)" by code_simp
  have d: "timeouts dropped_client = []" by code_simp
  have e: "nextTimer dropped_client = 2" by code_simp
  have f: "reconnectAttempts dropped_client = 0" by code_simp
  have g: "config dropped_client = RECONNECT_CONFIG" by code_simp
  from handleClose_schedules_reconnect [OF a b c, of 1006] a b c d e f g
  show ?thesis by (simp add: RECONNECT_CONFIG_def)
qed

subsection \<open>C7: exhausting the reconnect attempts\<close>

lemma failed_attempt_step:
  assumes "ready s" and "timeouts s = [p]"
  shows "ready (failed_attempt s) \<and> config (failed_attempt s) = config s
     \<and> timeouts (failed_attempt s) =
         (if reconnectAttempts s < wsMaxAttempts (config s)
          then [(nextTimer s, reconnect_delay s)] else [])
     \<and> reconnectAttempts (failed_attempt s) =
         (if reconnectAttempts s < wsMaxAttempts (config s)
          then reconnectAttempts s + 1 else reconnectAttempts s)
     \<and> failed_count (failed_attempt s) =
         (if reconnectAttempts s < wsMaxAttempts (config s)
          then failed_count s else failed_count s + 1)
     \<and> live_sockets (failed_attempt s) = live_sockets s"
proof (cases "truthy (token_after_read s)")
  case True
  let ?c = "s\<lparr>timeouts := []\<rparr>"
  have ct: "clearTimeout (fst p) s = ?c" using assms by (simp add: clearTimeout_def)
  have c: "connect ?c = opened_state ?c"
    using assms True by (intro connect_opens) (simp_all add: ready_def token_after_read_eq)
  have fa: "failed_attempt s =
      scheduleReconnect (closed_state 1006
        (set_readyState (length (sockets s)) CLOSED (handleError (opened_state ?c))))"
    using assms
    by (simp add: failed_attempt_def ct c handleClose_eq opened_state_def handleError_def emit_def
        console_log_def set_readyState_def ready_def)
  show ?thesis
    using assms unfolding fa
    by (simp add: scheduleReconnect_effect closed_state_def set_readyState_def handleError_def
        emit_def console_log_def opened_state_def ready_def failed_count_def reconnect_delay_def
        live_sockets_def)
next
  case False
  let ?c = "s\<lparr>timeouts := []\<rparr>"
  have ct: "clearTimeout (fst p) s = ?c" using assms by (simp add: clearTimeout_def)
  have c: "connect ?c = scheduleReconnect (refused_state ?c)"
    using assms False by (subst connect_refused) (simp_all add: ready_def token_after_read_eq)
  have l: "sockets (refused_state ?c) = sockets s"
    by (simp add: refused_state_def)
  have fa: "failed_attempt s = scheduleReconnect (refused_state ?c)"
    using assms by (simp add: failed_attempt_def ct c l Let_def)
  show ?thesis
    using assms unfolding fa
    by (simp add: scheduleReconnect_effect refused_state_def ready_def failed_count_def
        reconnect_delay_def live_sockets_def)
qed

lemma handleClose_first:
  assumes "shouldReconnect s" "enabled (config s)" "timeouts s = []" "reconnectAttempts s = 0"
    "0 < wsMaxAttempts (config s)"
  shows "ready (handleClose code s) \<and> config (handleClose code s) = config s
     \<and> (\<exists>p. timeouts (handleClose code s) = [p])
     \<and> reconnectAttempts (handleClose code s) = 1
     \<and> failed_count (handleClose code s) = failed_count s"
  using assms
  by (simp add: handleClose_eq scheduleReconnect_effect closed_state_def ready_def failed_count_def)

lemma rounds_invariant:
  assumes "ready x" "\<exists>p. timeouts x = [p]" "reconnectAttempts x = 1"
  shows "k < wsMaxAttempts (config x) \<Longrightarrow>
     ready ((failed_attempt ^^ k) x) \<and> config ((failed_attempt ^^ k) x) = config x
     \<and> (\<exists>p. timeouts ((failed_attempt ^^ k) x) = [p])
     \<and> reconnectAttempts ((failed_attempt ^^ k) x) = k + 1
     \<and> failed_count ((failed_attempt ^^ k) x) = failed_count x
     \<and> live_sockets ((failed_attempt ^^ k) x) = live_sockets x"
proof (induction k)
  case 0
  with assms show ?case by simp
next
  case (Suc k)
  let ?y = "(failed_attempt ^^ k) x"
  from Suc have y: "ready ?y" "config ?y = config x" "\<exists>p. timeouts ?y = [p]"
    "reconnectAttempts ?y = k + 1" "failed_count ?y = failed_count x"
    "live_sockets ?y = live_sockets x" by simp_all
  from y(3) obtain p where p: "timeouts ?y = [p]" by blast
  from failed_attempt_step [OF y(1) p] y Suc.prems show ?case by simp
qed

lemma rounds_final:
  assumes "ready x" "\<exists>p. timeouts x = [p]" "reconnectAttempts x = 1"
    "wsMaxAttempts (config x) = Suc n"
  shows "timeouts ((failed_attempt ^^ Suc n) x) = []
     \<and> failed_count ((failed_attempt ^^ Suc n) x) = failed_count x + 1
     \<and> live_sockets ((failed_attempt ^^ Suc n) x) = live_sockets x"
proof -
  let ?y = "(failed_attempt ^^ n) x"
  have "n < wsMaxAttempts (config x)" using assms(4) by simp
  from rounds_invariant [OF assms(1,2,3) this]
  have y: "ready ?y" "config ?y = config x" "\<exists>p. timeouts ?y = [p]"
    "reconnectAttempts ?y = n + 1" "failed_count ?y = failed_count x"
    "live_sockets ?y = live_sockets x" by simp_all
  from y(3) obtain p where p: "timeouts ?y = [p]" by blast
  from failed_attempt_step [OF y(1) p] y assms(4) show ?thesis by simp
qed

text \<open>
  An explicit \<^verbatim>\<open>reconnect()\<close> of an instance that has a token resets the count and
  constructs a socket.
\<close>

lemma reconnect_restarts:
  assumes "truthy (token_after_read s)"
  shows "reconnectAttempts (reconnect s) = 0 \<and> shouldReconnect (reconnect s)
     \<and> isConnecting (reconnect s)
     \<and> length (sockets (reconnect s)) = length (sockets s) + 1"
proof -
  let ?d = "(disconnect s)\<lparr>shouldReconnect := True, reconnectAttempts := 0\<rparr>"
  have c: "token_after_read ?d = token_after_read s"
    by (simp add: token_after_read_eq disconnect_eq)
  have "connect ?d = opened_state ?d"
    using assms c by (intro connect_opens) (simp_all add: disconnect_eq)
  then show ?thesis
    by (simp add: reconnect_def opened_state_def disconnect_eq closing_def split: option.splits)
qed

text \<open>
  When nothing else happens to the instance, the attempts run out as intended. A
  connection with \<open>shouldReconnect\<close> set, the reconnect enabled, no timer pending and
  no attempt counted closes, and every automatic attempt that follows fails: after
  \<open>k < maxAttempts\<close> failed attempts exactly one timer is pending and no
  reconnect-failed notification has been emitted; after \<open>maxAttempts\<close> failed attempts
  no timer is pending, the notification has been emitted once, and the attempts have
  left no socket connecting or open.
\<close>

lemma reconnect_exhaustion_undisturbed:
  assumes "shouldReconnect s" and "enabled (config s)" and "timeouts s = []"
    and "reconnectAttempts s = 0"
  shows "(\<forall>k < wsMaxAttempts (config s).
            length (timeouts ((failed_attempt ^^ k) (handleClose code s))) = 1
          \<and> reconnectAttempts ((failed_attempt ^^ k) (handleClose code s)) = k + 1
          \<and> failed_count ((failed_attempt ^^ k) (handleClose code s)) = failed_count s)
     \<and> timeouts ((failed_attempt ^^ wsMaxAttempts (config s)) (handleClose code s)) = []
     \<and> failed_count ((failed_attempt ^^ wsMaxAttempts (config s)) (handleClose code s))
         = failed_count s + 1
     \<and> live_sockets ((failed_attempt ^^ wsMaxAttempts (config s)) (handleClose code s))
         = live_sockets s"
proof (cases "wsMaxAttempts (config s)")
  case 0
  with assms show ?thesis
    by (simp add: handleClose_eq scheduleReconnect_effect closed_state_def failed_count_def
        live_sockets_def)
next
  case (Suc n)
  then have pos: "0 < wsMaxAttempts (config s)" by simp
  let ?x = "handleClose code s"
  from handleClose_first [OF assms pos, of code]
  have x: "ready ?x" "config ?x = config s" "\<exists>p. timeouts ?x = [p]" "reconnectAttempts ?x = 1"
    "failed_count ?x = failed_count s" by simp_all
  have lx: "live_sockets ?x = live_sockets s"
    by (simp add: handleClose_eq closed_state_def live_sockets_def)
  have a: "\<forall>k < wsMaxAttempts (config s).
            length (timeouts ((failed_attempt ^^ k) ?x)) = 1
          \<and> reconnectAttempts ((failed_attempt ^^ k) ?x) = k + 1
          \<and> failed_count ((failed_attempt ^^ k) ?x) = failed_count s"
  proof (intro allI impI)
    fix k assume "k < wsMaxAttempts (config s)"
    then have "k < wsMaxAttempts (config ?x)" using x(2) by simp
    from rounds_invariant [OF x(1,3,4) this] x(5)
    show "length (timeouts ((failed_attempt ^^ k) ?x)) = 1
          \<and> reconnectAttempts ((failed_attempt ^^ k) ?x) = k + 1
          \<and> failed_count ((failed_attempt ^^ k) ?x) = failed_count s"
      by auto
  qed
  have "wsMaxAttempts (config ?x) = Suc n" using x(2) Suc by simp
  from rounds_final [OF x(1,3,4) this] x(5) lx Suc a show ?thesis by simp
qed

text \<open>
  C7: the notification is not emitted exactly once when a replaced socket closes late.
  A connected client calls \<^verbatim>\<open>reconnect()\<close>, which resets the count, starts closing
  socket 0 and constructs socket 1. Socket 1 fails, and so do the five automatic
  attempts that follow (timers 2 to 6, sockets 2 to 6): the count is 5, no timer is
  pending, and \<open>onReconnectFailed\<close> has been emitted once. Then the close event of
  socket 0 arrives, whose callbacks are still attached: \<^verbatim>\<open>handleClose\<close> calls
  \<^verbatim>\<open>scheduleReconnect\<close>, which finds the attempts exhausted and emits
  \<open>onReconnectFailed\<close> a second time.
\<close>

theorem stale_close_repeats_reconnect_failed:
  "map_option (\<lambda>s. (reconnectAttempts s, map fst (timeouts s), failed_count s,
                     map readyState (sockets s)))
     (run [CallConnect, SocketOpens 0, CallReconnect, SocketCloses 1 1006,
           TimeoutFires 2, SocketCloses 2 1006, TimeoutFires 3, SocketCloses 3 1006,
           TimeoutFires 4, SocketCloses 4 1006, TimeoutFires 5, SocketCloses 5 1006,
           TimeoutFires 6, SocketCloses 6 1006] demo_client)
   = Some (5, [], 1, [CLOSING, CLOSED, CLOSED, CLOSED, CLOSED, CLOSED, CLOSED])
   \<and> map_option (\<lambda>s. (reconnectAttempts s, map fst (timeouts s), failed_count s,
                     map readyState (sockets s)))
     (run [CallConnect, SocketOpens 0, CallReconnect, SocketCloses 1 1006,
           TimeoutFires 2, SocketCloses 2 1006, TimeoutFires 3, SocketCloses 3 1006,
           TimeoutFires 4, SocketCloses 4 1006, TimeoutFires 5, SocketCloses 5 1006,
           TimeoutFires 6, SocketCloses 6 1006, SocketCloses 0 1000] demo_client)
   = Some (5, [], 2, [CLOSED, CLOSED, CLOSED, CLOSED, CLOSED, CLOSED, CLOSED])"
  by code_simp

subsection \<open>C8: disconnect\<close>

text \<open>
  \<^verbatim>\<open>disconnect\<close> is idempotent, and it cancels the timer \<open>reconnectTimer\<close> refers to
  and the heartbeat interval: when these are the only pending timers, none is left.
\<close>

lemma disconnect_idempotent: "disconnect (disconnect s) = disconnect s"
  by (simp add: disconnect_eq cancel_def closing_def)

lemma disconnect_cancels_referenced:
  "set (map fst (timeouts s)) \<subseteq> set_option (reconnectTimer s) \<Longrightarrow> timeouts (disconnect s) = []"
  by (cases "reconnectTimer s") (auto simp: disconnect_eq cancel_def filter_empty_conv)

lemma disconnect_stops_heartbeat:
  "set (map fst (intervals s)) \<subseteq> set_option (heartbeatTimer s) \<Longrightarrow> intervals (disconnect s) = []"
  by (cases "heartbeatTimer s") (auto simp: disconnect_eq cancel_def filter_empty_conv)

text \<open>
  C8: \<open>reconnectTimer\<close> holds one reference, and \<^verbatim>\<open>scheduleReconnect\<close> overwrites it
  without cancelling the timer it referred to. A connection attempt fails and schedules
  timer 1; before it fires the caller calls \<^verbatim>\<open>connect()\<close>, this attempt fails as well
  and schedules timer 2. \<^verbatim>\<open>disconnect()\<close> then cancels timer 2 only. Timer 1 is still
  pending when \<^verbatim>\<open>disconnect()\<close> has returned; it fires, \<^verbatim>\<open>connect()\<close> does not look
  at \<open>shouldReconnect\<close>, and a third socket is constructed.
\<close>

theorem orphan_timer_reopens_after_disconnect:
  "map_option (\<lambda>s. (shouldReconnect s, map readyState (sockets s), map fst (timeouts s), reconnectTimer s))
     (run [CallConnect, SocketCloses 0 1006, CallConnect, SocketCloses 1 1006] demo_client)
   = Some (True, [CLOSED, CLOSED], [1, 2], Some 2)
   \<and> map_option (\<lambda>s. (shouldReconnect s, map readyState (sockets s), map fst (timeouts s), reconnectTimer s))
     (run [CallConnect, SocketCloses 0 1006, CallConnect, SocketCloses 1 1006, CallDisconnect] demo_client)
   = Some (False, [CLOSED, CLOSED], [1], None)
   \<and> map_option (\<lambda>s. (shouldReconnect s, map readyState (sockets s), map fst (timeouts s), reconnectTimer s))
     (run [CallConnect, SocketCloses 0 1006, CallConnect, SocketCloses 1 1006, CallDisconnect,
           TimeoutFires 1] demo_client)
   = Some (False, [CLOSED, CLOSED, CONNECTING], [], None)"
  by code_simp

subsection \<open>C9: connecting without a credential\<close>

text \<open>
  When \<^verbatim>\<open>this.token\<close> is falsy once \<^verbatim>\<open>getToken\<close> has run, \<^verbatim>\<open>connect()\<close> called on an
  instance that is neither connecting nor connected constructs no socket, leaves \<open>ws\<close>
  as it was, ends not connecting, and emits the missing-token error on \<open>onError\<close>:
  \<^verbatim>\<open>buildUrl\<close> throws before \<^verbatim>\<open>new WebSocket\<close>. When the store yields no token,
  \<^verbatim>\<open>connectWebSocket\<close> throws the 401 error; no client and no updated map are returned.
\<close>

lemma connect_without_token:
  "(\<not> isConnecting s \<and> \<not> isConnected s \<and> \<not> truthy (token_after_read s) \<longrightarrow>
      sockets (connect s) = sockets s \<and> ws (connect s) = ws s \<and> \<not> isConnecting (connect s)
      \<and> (\<exists>rest. emitted (connect s) =
            emitted s @ (''onError'', ErrorObj missing_token, eventHandlers s ''onError'') # rest))
   \<and> (\<not> truthy (api_getToken store) \<longrightarrow>
      connectWebSocket wsClients store did handlers cfg = Inl unauthorized)"
proof -
  have "sockets (connect s) = sockets s \<and> ws (connect s) = ws s \<and> \<not> isConnecting (connect s)
      \<and> (\<exists>rest. emitted (connect s) =
            emitted s @ (''onError'', ErrorObj missing_token, eventHandlers s ''onError'') # rest)"
    if "\<not> isConnecting s" "\<not> isConnected s" "\<not> truthy (token_after_read s)"
    using that by (simp add: connect_refused scheduleReconnect_effect refused_state_def)
  moreover have "connectWebSocket wsClients store did handlers cfg = Inl unauthorized"
    if "\<not> truthy (api_getToken store)"
    using that by (simp add: connectWebSocket_def)
  ultimately show ?thesis by blast
qed

text \<open>
  C9: \<^verbatim>\<open>this.token\<close> is not always what the store yields. \<^verbatim>\<open>connect()\<close> calls
  \<^verbatim>\<open>getToken()\<close> to read the token again, but \<^verbatim>\<open>getToken()\<close> assigns the field only
  when the store holds a user and otherwise returns \<^verbatim>\<open>null\<close> without clearing it. A client
  is constructed while the store holds the token \<open>tok\<close>; the store is then emptied
  (the user logs out) and \<^verbatim>\<open>connect()\<close> is called. At that time the store yields no
  credential, as \<^verbatim>\<open>getToken\<close> of the API client reports and \<^verbatim>\<open>connectWebSocket\<close>
  refuses with the 401 error; yet \<^verbatim>\<open>buildUrl\<close> does not throw, no error is emitted, and
  a socket is constructed with the old token in its URL.
\<close>

theorem stale_token_opens_transport:
  "api_getToken NoUserData = None
   \<and> connectWebSocket Map.empty NoUserData ''42'' [] RECONNECT_CONFIG = Inl unauthorized
   \<and> map_option (\<lambda>s. (localStorage s, token s, map url (sockets s),
                       map readyState (sockets s), isConnecting s, emitted s))
       (run [StoreBecomes NoUserData, CallConnect] demo_client)
     = Some (NoUserData, Some (JStr ''tok''), [WsUrl ''42'' ''tok''], [CONNECTING], True, [])"
proof -
  have a: "api_getToken NoUserData = None" by (simp add: api_getToken_def)
  have b: "connectWebSocket Map.empty NoUserData ''42'' [] RECONNECT_CONFIG = Inl unauthorized"
    by (simp add: connectWebSocket_def api_getToken_def)
  have c: "map_option (\<lambda>s. (localStorage s, token s, map url (sockets s),
                       map readyState (sockets s), isConnecting s, emitted s))
       (run [StoreBecomes NoUserData, CallConnect] demo_client)
     = Some (NoUserData, Some (JStr ''tok''), [WsUrl ''42'' ''tok''], [CONNECTING], True, [])"
    by code_simp
  show ?thesis using a b c by simp
qed

subsection \<open>C10: the guard of connect\<close>

text \<open>
  On an instance whose \<open>isConnecting\<close> or \<open>isConnected\<close> flag is set, \<^verbatim>\<open>connect()\<close>
  writes a line to the console and changes nothing else.
\<close>

lemma connect_guard_frame:
  "isConnecting s \<or> isConnected s \<Longrightarrow>
   connect s = s\<lparr>console := console s @ [LogAlreadyConnected]\<rparr>"
  by (simp add: connect_guard console_log_def)

text \<open>
  C10: the flags do not always tell whether the instance has a live socket, because the
  callbacks of a replaced socket stay attached. A connected client calls
  \<^verbatim>\<open>reconnect()\<close>: socket 0 starts closing and socket 1 is constructed and opens. The
  close event of socket 0 then arrives; \<^verbatim>\<open>handleClose\<close> clears \<open>isConnected\<close> and
  schedules timer 3, although socket 1 is open. When the timer fires, \<^verbatim>\<open>connect()\<close>
  passes its guard and constructs socket 2: the instance has two live sockets, both
  delivering their events to it.
\<close>

theorem stale_close_defeats_connect_guard:
  "map_option (\<lambda>s. (map readyState (sockets s), isConnecting s, isConnected s, map fst (timeouts s), live_sockets s))
     (run [CallConnect, SocketOpens 0, CallReconnect, SocketOpens 1] demo_client)
   = Some ([CLOSING, OPEN], False, True, [], 1)
   \<and> map_option (\<lambda>s. (map readyState (sockets s), isConnecting s, isConnected s, map fst (timeouts s), live_sockets s))
     (run [CallConnect, SocketOpens 0, CallReconnect, SocketOpens 1, SocketCloses 0 1000] demo_client)
   = Some ([CLOSED, OPEN], False, False, [3], 1)
   \<and> map_option (\<lambda>s. (map readyState (sockets s), isConnecting s, isConnected s, map fst (timeouts s), live_sockets s))
     (run [CallConnect, SocketOpens 0, CallReconnect, SocketOpens 1, SocketCloses 0 1000,
           TimeoutFires 3] demo_client)
   = Some ([CLOSED, OPEN, CONNECTING], True, False, [], 2)"
  by code_simp

end
